theory Spec2Isabelle
  imports Main "HOL-Library.Word"
begin

section \<open>The speech relay: data\<close>

text \<open>
  The repository holds three revisions of one Socket.IO server that relays audio to a
  streaming speech recogniser:
  \<^item> \<^verbatim>\<open>src/server.ts\<close>: the plain handlers, no \<^verbatim>\<open>try\<close>, no flag;
  \<^item> \<^verbatim>\<open>src/unnamed/part_000\<close>, lines 1-122: the same handlers wrapped in
    \<^verbatim>\<open>try/catch\<close>;
  \<^item> \<^verbatim>\<open>src/unnamed/part_000\<close>, lines 123-308: the handlers with the credentials
    check, the flag \<^verbatim>\<open>isStreamEnded\<close> and the \<^verbatim>\<open>end\<close> listener.
  The third revision is the one whose per-connection variables are the Session of the
  specification (\<^verbatim>\<open>stream\<close> is \<^verbatim>\<open>recognizeStream\<close>, \<^verbatim>\<open>ended\<close> is
  \<^verbatim>\<open>isStreamEnded\<close>); its functions keep the source's names. The functions of the
  other two carry the prefixes \<open>server_ts_\<close> and \<open>part0_\<close>.

  The recogniser, the socket and the console are outside the repository. They are
  modelled by what the handlers do to them: the calls the recogniser has received, the
  events emitted on the socket, the lines written to the console. Whether a call to the
  recogniser throws is an input of the handler that makes the call.
\<close>

type_synonym handle = nat
type_synonym bytes = "8 word list"

text \<open>\<^verbatim>\<open>socket.emit(name, payload)\<close>: the two event names the server emits.\<close>

datatype outbound = Transcription string | ErrorEvent string

text \<open>What a handler can let escape: a \<^verbatim>\<open>TypeError\<close> of the language (a property
  read on \<^verbatim>\<open>undefined\<close>) or whatever a call to the recogniser threw.\<close>

datatype exn = TypeError | GatewayError

text \<open>How the recogniser answers a synchronous call.\<close>

datatype reply = Accepts | Throws

text \<open>The payload of a \<^verbatim>\<open>data\<close> event and the argument of an \<^verbatim>\<open>error\<close> event.\<close>

record alternative =
  transcript :: string

record speech_result =
  alternatives :: "alternative list"

record response =
  results :: "speech_result list"

record js_error =
  message :: string

text \<open>
  One connection. \<open>recognizeStream\<close> and \<open>isStreamEnded\<close> are the two variables
  declared in the connection callback (part_000, lines 214-215); the other fields are
  the world the handlers act on:
  \<^item> \<open>emitted\<close>: the events sent to the client, oldest first;
  \<^item> \<open>console\<close>: the labels of the \<^verbatim>\<open>console.error\<close> and \<^verbatim>\<open>console.log\<close> lines;
  \<^item> \<open>requested\<close>: how many times \<^verbatim>\<open>streamingRecognize\<close> was called;
  \<^item> \<open>created\<close>: how many streams it returned; their handles are \<open>0..<created\<close>;
  \<^item> \<open>writes\<close>: the \<^verbatim>\<open>write\<close> calls the streams received, in order;
  \<^item> \<open>ends\<close>: the \<^verbatim>\<open>end()\<close> calls (close requests) the streams received, in order;
  \<^item> \<open>closed\<close>: the streams whose \<^verbatim>\<open>end()\<close> call returned;
  \<^item> \<open>finished\<close>: the streams whose \<^verbatim>\<open>end\<close> event was delivered.
\<close>

record conn =
  recognizeStream :: "handle option"
  isStreamEnded :: bool
  emitted :: "outbound list"
  console :: "string list"
  requested :: nat
  created :: nat
  writes :: "(handle \<times> bytes) list"
  ends :: "handle list"
  closed :: "handle list"
  finished :: "handle list"

text \<open>The state when the connection callback has run (part_000, lines 211-215).\<close>

definition connection :: conn where
  "connection =
     \<lparr>recognizeStream = None, isStreamEnded = False, emitted = [],
      console = [''Client connected''], requested = 0, created = 0,
      writes = [], ends = [], closed = [], finished = []\<rparr>"

text \<open>A stream is open when it was created, has accepted no close request and has not
  ended by itself. A close request that threw leaves the stream as it was.\<close>

definition open_streams :: "conn \<Rightarrow> handle list" where
  "open_streams c =
     filter (\<lambda>h. h \<notin> set (closed c) \<and> h \<notin> set (finished c)) [0..<created c]"

section \<open>The world's operations\<close>

definition emit :: "outbound \<Rightarrow> conn \<Rightarrow> conn" where
  "emit ev c = c\<lparr>emitted := emitted c @ [ev]\<rparr>"

definition console_error :: "string \<Rightarrow> conn \<Rightarrow> conn" where
  "console_error label c = c\<lparr>console := console c @ [label]\<rparr>"

definition console_log :: "string \<Rightarrow> conn \<Rightarrow> conn" where
  "console_log label c = c\<lparr>console := console c @ [label]\<rparr>"

text \<open>\<^verbatim>\<open>speechClient.streamingRecognize(...)\<close> with its listeners attached: it
  throws, or returns a new stream.\<close>

definition streamingRecognize :: "reply \<Rightarrow> conn \<Rightarrow> (exn + handle) \<times> conn" where
  "streamingRecognize r c =
     (let c1 = c\<lparr>requested := Suc (requested c)\<rparr> in
      case r of
        Throws \<Rightarrow> (Inl GatewayError, c1)
      | Accepts \<Rightarrow> (Inr (created c1), c1\<lparr>created := Suc (created c1)\<rparr>))"

text \<open>\<^verbatim>\<open>stream.write(data)\<close> and \<^verbatim>\<open>stream.end()\<close>: the stream receives the
  call, and the call may throw.\<close>

definition stream_write :: "reply \<Rightarrow> handle \<Rightarrow> bytes \<Rightarrow> conn \<Rightarrow> exn option \<times> conn" where
  "stream_write r h data c =
     (let c1 = c\<lparr>writes := writes c @ [(h, data)]\<rparr> in
      case r of Throws \<Rightarrow> (Some GatewayError, c1) | Accepts \<Rightarrow> (None, c1))"

definition stream_end :: "reply \<Rightarrow> handle \<Rightarrow> conn \<Rightarrow> exn option \<times> conn" where
  "stream_end r h c =
     (let c1 = c\<lparr>ends := ends c @ [h]\<rparr> in
      case r of
        Throws \<Rightarrow> (Some GatewayError, c1)
      | Accepts \<Rightarrow> (None, c1\<lparr>closed := closed c1 @ [h]\<rparr>))"

text \<open>\<^verbatim>\<open>xs[0]\<close> is \<^verbatim>\<open>undefined\<close> on an empty array; \<^verbatim>\<open>x.transcript\<close> throws
  a \<^verbatim>\<open>TypeError\<close> when \<^verbatim>\<open>x\<close> is \<^verbatim>\<open>undefined\<close>.\<close>

definition index0 :: "'a list \<Rightarrow> 'a option" where
  "index0 xs = (case xs of [] \<Rightarrow> None | x # _ \<Rightarrow> Some x)"

definition transcript_of :: "alternative option \<Rightarrow> exn + string" where
  "transcript_of a = (case a of None \<Rightarrow> Inl TypeError | Some x \<Rightarrow> Inr (transcript x))"

section \<open>Startup (part_000, lines 141-158 and 199-209)\<close>

text \<open>\<^verbatim>\<open>JSON.parse\<close> belongs to the language: \<open>parses\<close> says whether it accepts a
  text. An undefined and an empty variable are both falsy.\<close>

definition validateGoogleCredentials :: "(string \<Rightarrow> bool) \<Rightarrow> string option \<Rightarrow> bool" where
  "validateGoogleCredentials parses credentials =
     (case credentials of
        None \<Rightarrow> False
      | Some text \<Rightarrow> if text = [] then False else parses text)"

record server =
  hasValidCredentials :: bool
  speechClient :: "unit option"

text \<open>The client is built only with valid credentials. A constructor that throws ends
  the process (\<^verbatim>\<open>process.exit(1)\<close>): no server.\<close>

definition startup :: "(string \<Rightarrow> bool) \<Rightarrow> reply \<Rightarrow> string option \<Rightarrow> server option" where
  "startup parses constructor credentials =
     (if validateGoogleCredentials parses credentials
      then (case constructor of
              Throws \<Rightarrow> None
            | Accepts \<Rightarrow> Some \<lparr>hasValidCredentials = True, speechClient = Some ()\<rparr>)
      else Some \<lparr>hasValidCredentials = False, speechClient = None\<rparr>)"

definition unavailable :: "server \<Rightarrow> bool" where
  "unavailable srv = (\<not> hasValidCredentials srv \<or> speechClient srv = None)"

section \<open>The handlers of part_000, lines 211-295\<close>

text \<open>A handler returns the exception that escaped it, if any, and the new state.\<close>

definition startStream :: "server \<Rightarrow> reply \<Rightarrow> conn \<Rightarrow> exn option \<times> conn" where
  "startStream srv r c =
     (if unavailable srv
      then (None, emit (ErrorEvent ''Speech-to-Text service is not configured'') c)
      else
        (case streamingRecognize r (c\<lparr>isStreamEnded := False\<rparr>) of
           (Inr h, c2) \<Rightarrow> (None, c2\<lparr>recognizeStream := Some h\<rparr>)
         | (Inl e, c2) \<Rightarrow>
             (None, emit (ErrorEvent ''Failed to start stream'')
                      (console_error ''Error starting stream:'' c2))))"

definition binaryData :: "reply \<Rightarrow> bytes \<Rightarrow> conn \<Rightarrow> exn option \<times> conn" where
  "binaryData r data c =
     (case recognizeStream c of
        None \<Rightarrow> (None, c)
      | Some h \<Rightarrow>
          if isStreamEnded c then (None, c)
          else
            (case stream_write r h data c of
               (None, c1) \<Rightarrow> (None, c1)
             | (Some e, c1) \<Rightarrow>
                 (None, emit (ErrorEvent ''Failed to process audio data'')
                          (console_error ''Error writing to stream:'' c1))))"

definition endStream :: "reply \<Rightarrow> conn \<Rightarrow> exn option \<times> conn" where
  "endStream r c =
     (case recognizeStream c of
        None \<Rightarrow> (None, c)
      | Some h \<Rightarrow>
          if isStreamEnded c then (None, c)
          else
            (case stream_end r h (c\<lparr>isStreamEnded := True\<rparr>) of
               (None, c1) \<Rightarrow> (None, c1\<lparr>recognizeStream := None\<rparr>)
             | (Some e, c1) \<Rightarrow> (None, console_error ''Error ending stream:'' c1)))"

definition disconnect :: "reply \<Rightarrow> conn \<Rightarrow> exn option \<times> conn" where
  "disconnect r c0 =
     (let c = console_log ''Client disconnected'' c0 in
      case recognizeStream c of
        None \<Rightarrow> (None, c)
      | Some h \<Rightarrow>
          if isStreamEnded c then (None, c)
          else
            (case stream_end r h (c\<lparr>isStreamEnded := True\<rparr>) of
               (None, c1) \<Rightarrow> (None, c1\<lparr>recognizeStream := None\<rparr>)
             | (Some e, c1) \<Rightarrow>
                 (None, console_error ''Error ending stream on disconnect:'' c1)))"

text \<open>The three listeners attached to every stream (lines 238-253).\<close>

definition on_error :: "js_error \<Rightarrow> conn \<Rightarrow> exn option \<times> conn" where
  "on_error err c =
     (if message err \<noteq> ''write after end''
      then (None, emit (ErrorEvent (''Speech recognition error: '' @ message err))
                    (console_error ''Speech recognition error:'' c))
      else (None, c))"

definition on_data :: "response \<Rightarrow> conn \<Rightarrow> exn option \<times> conn" where
  "on_data d c =
     (case index0 (results d) of
        None \<Rightarrow> (None, c)
      | Some res \<Rightarrow>
          (case index0 (alternatives res) of
             None \<Rightarrow> (None, c)
           | Some a \<Rightarrow>
               (case transcript_of (index0 (alternatives res)) of
                  Inl e \<Rightarrow> (Some e, c)
                | Inr t \<Rightarrow> (None, emit (Transcription t) c))))"

definition on_end :: "conn \<Rightarrow> exn option \<times> conn" where
  "on_end c = (None, c\<lparr>isStreamEnded := True, recognizeStream := None\<rparr>)"

section \<open>Events and runs\<close>

text \<open>What the transport and the recogniser deliver to one connection. A client event
  carries the recogniser's answer to the call its handler may make. The recogniser's
  events name the stream that emits them; only a stream that exists has listeners.\<close>

datatype event =
    StartStream reply
  | BinaryData bytes reply
  | EndStream reply
  | Disconnect reply
  | UpstreamData handle response
  | UpstreamError handle js_error
  | UpstreamEnd handle

fun step :: "server \<Rightarrow> event \<Rightarrow> conn \<Rightarrow> exn option \<times> conn" where
  "step srv (StartStream r) c = startStream srv r c"
| "step srv (BinaryData data r) c = binaryData r data c"
| "step srv (EndStream r) c = endStream r c"
| "step srv (Disconnect r) c = disconnect r c"
| "step srv (UpstreamData h d) c = (if h < created c then on_data d c else (None, c))"
| "step srv (UpstreamError h err) c = (if h < created c then on_error err c else (None, c))"
| "step srv (UpstreamEnd h) c =
     (if h < created c then on_end (c\<lparr>finished := finished c @ [h]\<rparr>) else (None, c))"

text \<open>Events are handled one at a time, in order. An exception that escapes a handler
  is uncaught: the run stops there.\<close>

fun run :: "server \<Rightarrow> event list \<Rightarrow> conn \<Rightarrow> exn option \<times> conn" where
  "run srv [] c = (None, c)"
| "run srv (ev # evs) c =
     (case step srv ev c of
        (None, c1) \<Rightarrow> run srv evs c1
      | (Some e, c1) \<Rightarrow> (Some e, c1))"

section \<open>The handlers of src/server.ts, lines 22-66\<close>

text \<open>No \<^verbatim>\<open>try\<close> anywhere: what a call throws escapes the handler. The reference is
  assigned on \<^verbatim>\<open>startStream\<close> and never cleared. The \<^verbatim>\<open>error\<close> listener is
  \<^verbatim>\<open>console.error\<close> itself, and there is no \<^verbatim>\<open>end\<close> listener.\<close>

text \<open>Startup (lines 18-20): the client is built from
  \<^verbatim>\<open>JSON.parse(process.env.GOOGLE_APPLICATION_CREDENTIALS || '{}')\<close> at the top of the
  module, so an unset or empty variable counts as the text \<^verbatim>\<open>{}\<close>. There is no
  \<^verbatim>\<open>try\<close>: a text that does not parse, or a constructor that throws, stops the
  module and there is no server. The handlers use the client without a test.\<close>

definition server_ts_startup :: "(string \<Rightarrow> bool) \<Rightarrow> reply \<Rightarrow> string option \<Rightarrow> unit option" where
  "server_ts_startup parses constructor credentials =
     (let text = (case credentials of
                    None \<Rightarrow> ''{}''
                  | Some t \<Rightarrow> if t = [] then ''{}'' else t)
      in if parses text
         then (case constructor of Throws \<Rightarrow> None | Accepts \<Rightarrow> Some ())
         else None)"

definition server_ts_startStream :: "reply \<Rightarrow> conn \<Rightarrow> exn option \<times> conn" where
  "server_ts_startStream r c =
     (case streamingRecognize r c of
        (Inr h, c1) \<Rightarrow> (None, c1\<lparr>recognizeStream := Some h\<rparr>)
      | (Inl e, c1) \<Rightarrow> (Some e, c1))"

definition server_ts_binaryData :: "reply \<Rightarrow> bytes \<Rightarrow> conn \<Rightarrow> exn option \<times> conn" where
  "server_ts_binaryData r data c =
     (case recognizeStream c of
        None \<Rightarrow> (None, c)
      | Some h \<Rightarrow> stream_write r h data c)"

definition server_ts_endStream :: "reply \<Rightarrow> conn \<Rightarrow> exn option \<times> conn" where
  "server_ts_endStream r c =
     (case recognizeStream c of
        None \<Rightarrow> (None, c)
      | Some h \<Rightarrow> stream_end r h c)"

definition server_ts_disconnect :: "reply \<Rightarrow> conn \<Rightarrow> exn option \<times> conn" where
  "server_ts_disconnect r c0 =
     (let c = console_log ''Client disconnected'' c0 in
      case recognizeStream c of
        None \<Rightarrow> (None, c)
      | Some h \<Rightarrow> stream_end r h c)"

definition server_ts_on_error :: "js_error \<Rightarrow> conn \<Rightarrow> exn option \<times> conn" where
  "server_ts_on_error err c = (None, console_error (message err) c)"

definition server_ts_on_data :: "response \<Rightarrow> conn \<Rightarrow> exn option \<times> conn" where
  "server_ts_on_data d c =
     (case index0 (results d) of
        None \<Rightarrow> (None, c)
      | Some res \<Rightarrow>
          (case transcript_of (index0 (alternatives res)) of
             Inl e \<Rightarrow> (Some e, c)
           | Inr t \<Rightarrow> (None, emit (Transcription t) c)))"

fun server_ts_step :: "event \<Rightarrow> conn \<Rightarrow> exn option \<times> conn" where
  "server_ts_step (StartStream r) c = server_ts_startStream r c"
| "server_ts_step (BinaryData data r) c = server_ts_binaryData r data c"
| "server_ts_step (EndStream r) c = server_ts_endStream r c"
| "server_ts_step (Disconnect r) c = server_ts_disconnect r c"
| "server_ts_step (UpstreamData h d) c =
     (if h < created c then server_ts_on_data d c else (None, c))"
| "server_ts_step (UpstreamError h err) c =
     (if h < created c then server_ts_on_error err c else (None, c))"
| "server_ts_step (UpstreamEnd h) c =
     (if h < created c then (None, c\<lparr>finished := finished c @ [h]\<rparr>) else (None, c))"

fun server_ts_run :: "event list \<Rightarrow> conn \<Rightarrow> exn option \<times> conn" where
  "server_ts_run [] c = (None, c)"
| "server_ts_run (ev # evs) c =
     (case server_ts_step ev c of
        (None, c1) \<Rightarrow> server_ts_run evs c1
      | (Some e, c1) \<Rightarrow> (Some e, c1))"

section \<open>The handlers of part_000, lines 44-109\<close>

text \<open>The calls to the recogniser are inside \<^verbatim>\<open>try/catch\<close>; the listeners are not.
  The \<^verbatim>\<open>error\<close> listener reports every error with one fixed text.\<close>

definition part0_startStream :: "reply \<Rightarrow> conn \<Rightarrow> exn option \<times> conn" where
  "part0_startStream r c =
     (case streamingRecognize r c of
        (Inr h, c1) \<Rightarrow> (None, c1\<lparr>recognizeStream := Some h\<rparr>)
      | (Inl e, c1) \<Rightarrow>
          (None, emit (ErrorEvent ''Failed to start stream'')
                   (console_error ''Error starting stream:'' c1)))"

definition part0_binaryData :: "reply \<Rightarrow> bytes \<Rightarrow> conn \<Rightarrow> exn option \<times> conn" where
  "part0_binaryData r data c =
     (case recognizeStream c of
        None \<Rightarrow> (None, c)
      | Some h \<Rightarrow>
          (case stream_write r h data c of
             (None, c1) \<Rightarrow> (None, c1)
           | (Some e, c1) \<Rightarrow>
               (None, emit (ErrorEvent ''Failed to process audio data'')
                        (console_error ''Error writing to stream:'' c1))))"

definition part0_endStream :: "reply \<Rightarrow> conn \<Rightarrow> exn option \<times> conn" where
  "part0_endStream r c =
     (case recognizeStream c of
        None \<Rightarrow> (None, c)
      | Some h \<Rightarrow>
          (case stream_end r h c of
             (None, c1) \<Rightarrow> (None, c1)
           | (Some e, c1) \<Rightarrow> (None, console_error ''Error ending stream:'' c1)))"

definition part0_disconnect :: "reply \<Rightarrow> conn \<Rightarrow> exn option \<times> conn" where
  "part0_disconnect r c0 =
     (let c = console_log ''Client disconnected'' c0 in
      case recognizeStream c of
        None \<Rightarrow> (None, c)
      | Some h \<Rightarrow>
          (case stream_end r h c of
             (None, c1) \<Rightarrow> (None, c1)
           | (Some e, c1) \<Rightarrow>
               (None, console_error ''Error ending stream on disconnect:'' c1)))"

definition part0_on_error :: "js_error \<Rightarrow> conn \<Rightarrow> exn option \<times> conn" where
  "part0_on_error err c =
     (None, emit (ErrorEvent ''Speech recognition error occurred'')
              (console_error ''Speech recognition error:'' c))"

definition part0_on_data :: "response \<Rightarrow> conn \<Rightarrow> exn option \<times> conn" where
  "part0_on_data d c =
     (case index0 (results d) of
        None \<Rightarrow> (None, c)
      | Some res \<Rightarrow>
          (case transcript_of (index0 (alternatives res)) of
             Inl e \<Rightarrow> (Some e, c)
           | Inr t \<Rightarrow> (None, emit (Transcription t) c)))"

fun part0_step :: "event \<Rightarrow> conn \<Rightarrow> exn option \<times> conn" where
  "part0_step (StartStream r) c = part0_startStream r c"
| "part0_step (BinaryData data r) c = part0_binaryData r data c"
| "part0_step (EndStream r) c = part0_endStream r c"
| "part0_step (Disconnect r) c = part0_disconnect r c"
| "part0_step (UpstreamData h d) c =
     (if h < created c then part0_on_data d c else (None, c))"
| "part0_step (UpstreamError h err) c =
     (if h < created c then part0_on_error err c else (None, c))"
| "part0_step (UpstreamEnd h) c =
     (if h < created c then (None, c\<lparr>finished := finished c @ [h]\<rparr>) else (None, c))"

fun part0_run :: "event list \<Rightarrow> conn \<Rightarrow> exn option \<times> conn" where
  "part0_run [] c = (None, c)"
| "part0_run (ev # evs) c =
     (case part0_step ev c of
        (None, c1) \<Rightarrow> part0_run evs c1
      | (Some e, c1) \<Rightarrow> (Some e, c1))"

section \<open>Several connections\<close>

text \<open>Each connection callback declares its own variables, so the server's state is one
  \<open>conn\<close> per connected socket. An event of socket \<open>k\<close> runs that socket's handler.\<close>

definition deliver ::
  "server \<Rightarrow> nat \<Rightarrow> event \<Rightarrow> (nat \<Rightarrow> conn option) \<Rightarrow> exn option \<times> (nat \<Rightarrow> conn option)" where
  "deliver srv k ev conns =
     (case conns k of
        None \<Rightarrow> (None, conns)
      | Some c \<Rightarrow> (case step srv ev c of (x, c1) \<Rightarrow> (x, conns(k := Some c1))))"

text \<open>The payloads of the audio events of a list, in order.\<close>

fun chunks :: "event list \<Rightarrow> bytes list" where
  "chunks [] = []"
| "chunks (BinaryData data r # evs) = data # chunks evs"
| "chunks (ev # evs) = chunks evs"

text \<open>Events that are not a stop, a disconnect, a start or the end of a stream: audio,
  and the recogniser's results and errors.\<close>

fun streaming :: "event \<Rightarrow> bool" where
  "streaming (BinaryData data r) = True"
| "streaming (UpstreamData h d) = True"
| "streaming (UpstreamError h err) = True"
| "streaming ev = False"

fun is_audio :: "event \<Rightarrow> bool" where
  "is_audio (BinaryData data r) = True"
| "is_audio ev = False"

fun accepted_audio :: "event \<Rightarrow> bool" where
  "accepted_audio (BinaryData data Accepts) = True"
| "accepted_audio ev = False"

section \<open>What holds of every state a run reaches\<close>

text \<open>The reference, when set, is the stream created last, and that stream is open;
  only created streams are closed or finished.\<close>

definition consistent :: "conn \<Rightarrow> bool" where
  "consistent c =
     ((case recognizeStream c of
         None \<Rightarrow> True
       | Some h \<Rightarrow> Suc h = created c \<and> h \<notin> set (closed c) \<and> h \<notin> set (finished c)) \<and>
      list_all (\<lambda>h. h < created c) (closed c) \<and>
      list_all (\<lambda>h. h < created c) (finished c))"

text \<open>A state in which no stream was ever asked for.\<close>

definition untouched :: "conn \<Rightarrow> bool" where
  "untouched c = (recognizeStream c = None \<and> requested c = 0 \<and> created c = 0)"

section \<open>Orderly runs\<close>







section \<open>Basic facts\<close>

lemmas world_defs = emit_def console_error_def console_log_def streamingRecognize_def
  stream_write_def stream_end_def index0_def transcript_of_def Let_def

lemmas handler_defs = startStream_def binaryData_def endStream_def disconnect_def
  on_error_def on_data_def on_end_def

lemmas part0_defs = part0_startStream_def part0_binaryData_def part0_endStream_def
  part0_disconnect_def part0_on_error_def part0_on_data_def

lemmas server_ts_defs = server_ts_startStream_def server_ts_binaryData_def
  server_ts_endStream_def server_ts_disconnect_def server_ts_on_error_def
  server_ts_on_data_def

text \<open>In the revision with the flag, nothing escapes a handler: every call to the
  recogniser is inside a \<^verbatim>\<open>try\<close>, and the \<^verbatim>\<open>data\<close> listener reads
  \<^verbatim>\<open>transcript\<close> only after testing \<^verbatim>\<open>result.alternatives[0]\<close>.\<close>

lemma step_returns: "fst (step srv ev c) = None"
  by (cases ev)
     (auto simp: handler_defs world_defs
           split: option.splits reply.splits list.splits sum.splits)

lemma step_pair: "step srv ev c = (None, snd (step srv ev c))"
  using step_returns [of srv ev c] by (cases "step srv ev c") simp

lemma run_Cons: "run srv (ev # evs) c = run srv evs (snd (step srv ev c))"
  using step_pair [of srv ev c] by (cases "step srv ev c") auto

lemma run_returns: "fst (run srv evs c) = None"
  by (induction evs arbitrary: c) (simp_all add: run_Cons del: run.simps(2))

lemma run_append: "run srv (xs @ ys) c = run srv ys (snd (run srv xs c))"
  by (induction xs arbitrary: c) (simp_all add: run_Cons del: run.simps(2))

lemma consistent_connection: "consistent connection"
  by (simp add: consistent_def connection_def)

lemma consistent_step: "consistent c \<Longrightarrow> consistent (snd (step srv ev c))"
  by (cases ev)
     (auto simp: consistent_def handler_defs world_defs list_all_iff
           split: option.splits reply.splits list.splits sum.splits)

lemma consistent_run: "consistent c \<Longrightarrow> consistent (snd (run srv evs c))"
  by (induction evs arbitrary: c) (simp_all add: run_Cons consistent_step del: run.simps(2))

lemma consistent_reached: "consistent (snd (run srv evs connection))"
  by (simp add: consistent_run consistent_connection)

lemma referenced_open:
  "consistent c \<Longrightarrow> recognizeStream c = Some h \<Longrightarrow> h \<in> set (open_streams c)"
  by (auto simp: consistent_def open_streams_def)

text \<open>Without a usable backend no stream is ever asked for.\<close>

lemma untouched_connection: "untouched connection"
  by (simp add: untouched_def connection_def)

lemma untouched_step:
  "unavailable srv \<Longrightarrow> untouched c \<Longrightarrow> untouched (snd (step srv ev c))"
  by (cases ev) (auto simp: untouched_def handler_defs world_defs split: option.splits)

lemma untouched_run:
  "unavailable srv \<Longrightarrow> untouched c \<Longrightarrow> untouched (snd (run srv evs c))"
  by (induction evs arbitrary: c) (simp_all add: run_Cons untouched_step del: run.simps(2))

section \<open>Starting a stream\<close>

lemma startStream_returns: "fst (startStream srv r c) = None"
  using step_returns [of srv "StartStream r" c] by simp

lemma startStream_unavailable:
  "unavailable srv \<Longrightarrow>
   startStream srv r c =
     (None, c\<lparr>emitted := emitted c @ [ErrorEvent ''Speech-to-Text service is not configured'']\<rparr>)"
  by (simp add: startStream_def emit_def)

lemma startStream_accepted:
  "\<not> unavailable srv \<Longrightarrow>
   snd (startStream srv Accepts c) =
     c\<lparr>isStreamEnded := False, requested := Suc (requested c),
       created := Suc (created c), recognizeStream := Some (created c)\<rparr>"
  by (simp add: handler_defs world_defs)

lemma startStream_thrown:
  "\<not> unavailable srv \<Longrightarrow>
   snd (startStream srv Throws c) =
     c\<lparr>isStreamEnded := False, requested := Suc (requested c),
       console := console c @ [''Error starting stream:''],
       emitted := emitted c @ [ErrorEvent ''Failed to start stream'']\<rparr>"
  by (simp add: handler_defs world_defs)


lemma open_after_start:
  assumes "consistent c" and "\<not> unavailable srv"
  shows "created c \<in> set (open_streams (snd (startStream srv Accepts c)))"
    and "recognizeStream c = Some h \<Longrightarrow>
         h \<in> set (open_streams (snd (startStream srv Accepts c)))"
  using assms
  by (auto simp: startStream_accepted open_streams_def consistent_def list_all_iff)





























text \<open>
  Claim C2. Let \<open>c\<close> be any state that a sequence of events reaches from a new
  connection. \<^verbatim>\<open>onStart\<close> returns normally. When the backend is unavailable
  (credentials invalid or no client) it emits the error "Speech-to-Text service is not
  configured" and changes nothing else. In all cases, afterwards either no stream is
  installed, or a stream is installed with \<open>isStreamEnded\<close> false and that stream is
  open; when the recogniser accepts, the installed stream is the new one.
\<close>

theorem startStream_guarantee:
  assumes "c = snd (run srv evs connection)" and "c' = snd (startStream srv r c)"
  shows "fst (startStream srv r c) = None \<and>
    (unavailable srv \<longrightarrow>
       c' = c\<lparr>emitted := emitted c @ [ErrorEvent ''Speech-to-Text service is not configured'']\<rparr>) \<and>
    (recognizeStream c' = None \<or>
       (\<exists>h. recognizeStream c' = Some h \<and> \<not> isStreamEnded c' \<and> h \<in> set (open_streams c'))) \<and>
    (\<not> unavailable srv \<and> r = Accepts \<longrightarrow>
       recognizeStream c' = Some (created c) \<and> \<not> isStreamEnded c')"
proof -
  have inv: "consistent c"
    using assms(1) by (simp add: consistent_reached)
  have live: "recognizeStream c' = None \<or>
       (\<exists>h. recognizeStream c' = Some h \<and> \<not> isStreamEnded c' \<and> h \<in> set (open_streams c'))"
  proof (cases "unavailable srv")
    case True
    then have "untouched c"
      using assms(1) by (simp add: untouched_run untouched_connection)
    with True show ?thesis
      by (simp add: assms(2) startStream_unavailable untouched_def)
  next
    case False
    show ?thesis
    proof (cases r)
      case Accepts
      with False open_after_start(1) [OF inv False] show ?thesis
        by (simp add: assms(2) startStream_accepted)
    next
      case Throws
      have same: "open_streams c' = open_streams c"
        using False Throws by (simp add: assms(2) startStream_thrown open_streams_def)
      show ?thesis
      proof (cases "recognizeStream c")
        case None
        with False Throws show ?thesis
          by (simp add: assms(2) startStream_thrown)
      next
        case (Some h)
        with False Throws same referenced_open [OF inv Some] show ?thesis
          by (simp add: assms(2) startStream_thrown)
      qed
    qed
  qed
  have acc: "\<not> unavailable srv \<and> r = Accepts \<longrightarrow>
       recognizeStream c' = Some (created c) \<and> \<not> isStreamEnded c'"
    by (simp add: assms(2) startStream_accepted)
  have una: "unavailable srv \<longrightarrow>
       c' = c\<lparr>emitted := emitted c @ [ErrorEvent ''Speech-to-Text service is not configured'']\<rparr>"
    by (simp add: assms(2) startStream_unavailable)
  from startStream_returns live acc una show ?thesis by blast
qed

text \<open>Both cases at concrete inputs: a server without credentials after one audio
  event, and a configured server after a stop with nothing to stop.\<close>

theorem startStream_guarantee_witness:
  "unavailable \<lparr>hasValidCredentials = False, speechClient = None\<rparr> \<and>
   snd (startStream \<lparr>hasValidCredentials = False, speechClient = None\<rparr> Accepts
      (snd (run \<lparr>hasValidCredentials = False, speechClient = None\<rparr>
         [BinaryData [7] Accepts] connection))) =
     connection\<lparr>emitted := [ErrorEvent ''Speech-to-Text service is not configured'']\<rparr> \<and>
   \<not> unavailable \<lparr>hasValidCredentials = True, speechClient = Some ()\<rparr> \<and>
   recognizeStream (snd (startStream \<lparr>hasValidCredentials = True, speechClient = Some ()\<rparr> Accepts
      (snd (run \<lparr>hasValidCredentials = True, speechClient = Some ()\<rparr>
         [EndStream Accepts] connection)))) = Some 0 \<and>
   open_streams (snd (startStream \<lparr>hasValidCredentials = True, speechClient = Some ()\<rparr> Accepts
      (snd (run \<lparr>hasValidCredentials = True, speechClient = Some ()\<rparr>
         [EndStream Accepts] connection)))) = [0]"
  using startStream_guarantee
    [of "snd (run \<lparr>hasValidCredentials = False, speechClient = None\<rparr>
           [BinaryData [7] Accepts] connection)"
        "\<lparr>hasValidCredentials = False, speechClient = None\<rparr>"
        "[BinaryData [7] Accepts]"
        "snd (startStream \<lparr>hasValidCredentials = False, speechClient = None\<rparr> Accepts
           (snd (run \<lparr>hasValidCredentials = False, speechClient = None\<rparr>
              [BinaryData [7] Accepts] connection)))"
        Accepts, OF refl refl]
    startStream_guarantee
    [of "snd (run \<lparr>hasValidCredentials = True, speechClient = Some ()\<rparr>
           [EndStream Accepts] connection)"
        "\<lparr>hasValidCredentials = True, speechClient = Some ()\<rparr>"
        "[EndStream Accepts]"
        "snd (startStream \<lparr>hasValidCredentials = True, speechClient = Some ()\<rparr> Accepts
           (snd (run \<lparr>hasValidCredentials = True, speechClient = Some ()\<rparr>
              [EndStream Accepts] connection)))"
        Accepts, OF refl refl]
  by (simp add: handler_defs world_defs connection_def unavailable_def open_streams_def)

text \<open>
  The revision with the flag checks the credentials. When
  \<^verbatim>\<open>validateGoogleCredentials\<close> rejects them at startup (variable unset, empty, or
  not JSON), the server still starts, and every \<^verbatim>\<open>onStart\<close>, in any state, returns
  at once with the state unchanged but for the emitted error "Speech-to-Text service is
  not configured". So over any sequence of events \<^verbatim>\<open>streamingRecognize\<close> is never
  called and no stream is installed.
\<close>

theorem invalid_credentials_reject_start:
  assumes "\<not> validateGoogleCredentials parses credentials"
  shows "\<exists>srv. startup parses constructor credentials = Some srv \<and>
     (\<forall>r c. startStream srv r c =
        (None, c\<lparr>emitted := emitted c @
           [ErrorEvent ''Speech-to-Text service is not configured'']\<rparr>)) \<and>
     (\<forall>evs. requested (snd (run srv evs connection)) = 0 \<and>
        created (snd (run srv evs connection)) = 0 \<and>
        recognizeStream (snd (run srv evs connection)) = None)"
proof -
  let ?srv = "\<lparr>hasValidCredentials = False, speechClient = None\<rparr>"
  have u: "unavailable ?srv"
    by (simp add: unavailable_def)
  have s: "startup parses constructor credentials = Some ?srv"
    using assms by (simp add: startup_def)
  have "\<forall>evs. untouched (snd (run ?srv evs connection))"
    using u by (simp add: untouched_run untouched_connection)
  then have r: "\<forall>evs. requested (snd (run ?srv evs connection)) = 0 \<and>
        created (snd (run ?srv evs connection)) = 0 \<and>
        recognizeStream (snd (run ?srv evs connection)) = None"
    by (simp add: untouched_def)
  from s r u show ?thesis
    by (simp add: startStream_unavailable)
qed

text \<open>Credentials that are not JSON: the server starts without a client, and two
  starts around an audio event ask the recogniser for nothing.\<close>

theorem invalid_credentials_reject_start_witness:
  "\<not> validateGoogleCredentials (\<lambda>text. text = ''{}'') (Some ''not json'') \<and>
   startup (\<lambda>text. text = ''{}'') Accepts (Some ''not json'') =
     Some \<lparr>hasValidCredentials = False, speechClient = None\<rparr> \<and>
   startStream \<lparr>hasValidCredentials = False, speechClient = None\<rparr> Accepts connection =
     (None, connection\<lparr>emitted := [ErrorEvent ''Speech-to-Text service is not configured'']\<rparr>) \<and>
   requested (snd (run \<lparr>hasValidCredentials = False, speechClient = None\<rparr>
     [StartStream Accepts, BinaryData [1] Accepts, StartStream Accepts] connection)) = 0"
  using invalid_credentials_reject_start
    [of "\<lambda>text. text = ''{}''" "Some ''not json''" Accepts]
  by (auto simp: validateGoogleCredentials_def startup_def connection_def
      handler_defs world_defs unavailable_def)

text \<open>
  Claim C6 says that with invalid credentials every \<^verbatim>\<open>onStart\<close> emits the "not
  configured" error and never tries to open a stream. src/server.ts has no such check:
  with the variable unset (credentials that \<^verbatim>\<open>validateGoogleCredentials\<close> rejects)
  it builds its client from \<^verbatim>\<open>{}\<close> and starts, and \<^verbatim>\<open>startStream\<close> calls
  \<^verbatim>\<open>streamingRecognize\<close> and emits nothing.
\<close>

theorem server_ts_starts_stream_without_credentials:
  "\<not> validateGoogleCredentials (\<lambda>text. text = ''{}'') None \<and>
   server_ts_startup (\<lambda>text. text = ''{}'') Accepts None = Some () \<and>
   requested (snd (server_ts_run [StartStream Accepts] connection)) = 1 \<and>
   recognizeStream (snd (server_ts_run [StartStream Accepts] connection)) = Some 0 \<and>
   emitted (snd (server_ts_run [StartStream Accepts] connection)) = [] \<and>
   requested (snd (server_ts_run [StartStream Throws] connection)) = 1 \<and>
   emitted (snd (server_ts_run [StartStream Throws] connection)) = []"
  by (simp add: validateGoogleCredentials_def server_ts_startup_def server_ts_defs
      world_defs connection_def)

section \<open>Audio\<close>

lemma chunks_Cons: "chunks (ev # evs) = chunks [ev] @ chunks evs"
  by (cases ev) simp_all

lemma streaming_step:
  assumes "recognizeStream c = Some h" and "\<not> isStreamEnded c" and "streaming ev"
  shows "recognizeStream (snd (step srv ev c)) = Some h"
    and "\<not> isStreamEnded (snd (step srv ev c))"
    and "created (snd (step srv ev c)) = created c"
    and "writes (snd (step srv ev c)) = writes c @ map (Pair h) (chunks [ev])"
  using assms
  by (cases ev; auto simp: handler_defs world_defs
        split: option.splits reply.splits list.splits sum.splits)+

lemma streaming_run:
  "recognizeStream c = Some h \<Longrightarrow> \<not> isStreamEnded c \<Longrightarrow> \<forall>ev\<in>set evs. streaming ev \<Longrightarrow>
   writes (snd (run srv evs c)) = writes c @ map (Pair h) (chunks evs) \<and>
   recognizeStream (snd (run srv evs c)) = Some h \<and> \<not> isStreamEnded (snd (run srv evs c))"
proof (induction evs arbitrary: c)
  case Nil
  then show ?case by simp
next
  case (Cons ev evs)
  have s: "streaming ev" using Cons.prems(3) by simp
  note st = streaming_step [OF Cons.prems(1) Cons.prems(2) s, of srv]
  have "writes (snd (run srv evs (snd (step srv ev c)))) =
          writes (snd (step srv ev c)) @ map (Pair h) (chunks evs) \<and>
        recognizeStream (snd (run srv evs (snd (step srv ev c)))) = Some h \<and>
        \<not> isStreamEnded (snd (run srv evs (snd (step srv ev c))))"
    using Cons.IH [OF st(1) st(2)] Cons.prems(3) by simp
  then show ?case
    using st(4) chunks_Cons [of ev evs] by (simp add: run_Cons del: run.simps(2))
qed

lemma part0_audio_run:
  "recognizeStream c = Some h \<Longrightarrow> \<forall>ev\<in>set evs. is_audio ev \<Longrightarrow>
   part0_run evs c = (None, snd (part0_run evs c)) \<and>
   writes (snd (part0_run evs c)) = writes c @ map (Pair h) (chunks evs)"
proof (induction evs arbitrary: c)
  case Nil
  then show ?case by simp
next
  case (Cons ev evs)
  obtain data r where ev: "ev = BinaryData data r"
    using Cons.prems(2) by (cases ev) simp_all
  obtain c1 where c1: "part0_step ev c = (None, c1)" "recognizeStream c1 = Some h"
      "writes c1 = writes c @ [(h, data)]"
    using Cons.prems(1) ev by (cases r) (simp_all add: part0_defs world_defs)
  from Cons.IH [OF c1(2)] Cons.prems(2) c1 ev show ?case by simp
qed

lemma server_ts_audio_run:
  "recognizeStream c = Some h \<Longrightarrow> \<forall>ev\<in>set evs. accepted_audio ev \<Longrightarrow>
   server_ts_run evs c = (None, snd (server_ts_run evs c)) \<and>
   writes (snd (server_ts_run evs c)) = writes c @ map (Pair h) (chunks evs)"
proof (induction evs arbitrary: c)
  case Nil
  then show ?case by simp
next
  case (Cons ev evs)
  obtain data where ev: "ev = BinaryData data Accepts"
    using Cons.prems(2) by (cases ev rule: accepted_audio.cases) simp_all
  obtain c1 where c1: "server_ts_step ev c = (None, c1)" "recognizeStream c1 = Some h"
      "writes c1 = writes c @ [(h, data)]"
    using Cons.prems(1) ev by (simp_all add: server_ts_defs world_defs)
  from Cons.IH [OF c1(2)] Cons.prems(2) c1 ev show ?case by simp
qed

text \<open>
  Claim C3. After an accepted \<^verbatim>\<open>onStart\<close> in any state \<open>c\<close>, let \<open>evs\<close> be events
  none of which is a stop, a disconnect, a start or the end of a stream (audio, and
  the recogniser's results and errors, in any order). Then the write calls the new
  stream receives are exactly the audio payloads of \<open>evs\<close>, unchanged and in arrival
  order, whether or not a write throws, and nothing is written to any other stream.
  The same holds in part_000 lines 44-109 for audio events, and in src/server.ts for
  audio events whose write returns (there a write that throws escapes the handler).
\<close>

theorem audio_forwarded_in_order:
  "(\<not> unavailable srv \<and> (\<forall>ev\<in>set evs. streaming ev) \<longrightarrow>
      fst (run srv (StartStream Accepts # evs) c) = None \<and>
      recognizeStream (snd (startStream srv Accepts c)) = Some (created c) \<and>
      writes (snd (run srv (StartStream Accepts # evs) c)) =
        writes c @ map (Pair (created c)) (chunks evs)) \<and>
   ((\<forall>ev\<in>set evs. is_audio ev) \<longrightarrow>
      fst (part0_run (StartStream Accepts # evs) c) = None \<and>
      writes (snd (part0_run (StartStream Accepts # evs) c)) =
        writes c @ map (Pair (created c)) (chunks evs)) \<and>
   ((\<forall>ev\<in>set evs. accepted_audio ev) \<longrightarrow>
      fst (server_ts_run (StartStream Accepts # evs) c) = None \<and>
      writes (snd (server_ts_run (StartStream Accepts # evs) c)) =
        writes c @ map (Pair (created c)) (chunks evs))"
proof (intro conjI impI)
  assume a: "\<not> unavailable srv \<and> (\<forall>ev\<in>set evs. streaming ev)"
  show "fst (run srv (StartStream Accepts # evs) c) = None"
    by (rule run_returns)
  show "recognizeStream (snd (startStream srv Accepts c)) = Some (created c)"
    using a by (simp add: startStream_accepted)
  show "writes (snd (run srv (StartStream Accepts # evs) c)) =
        writes c @ map (Pair (created c)) (chunks evs)"
    using a streaming_run [of "snd (startStream srv Accepts c)" "created c" evs srv]
    by (simp add: run_Cons startStream_accepted del: run.simps(2))
next
  assume a: "\<forall>ev\<in>set evs. is_audio ev"
  have s: "part0_step (StartStream Accepts) c =
      (None, c\<lparr>requested := Suc (requested c), created := Suc (created c),
                recognizeStream := Some (created c)\<rparr>)"
    by (simp add: part0_defs world_defs)
  note r = part0_audio_run [of "c\<lparr>requested := Suc (requested c), created := Suc (created c),
                recognizeStream := Some (created c)\<rparr>" "created c" evs]
  show "fst (part0_run (StartStream Accepts # evs) c) = None"
    using a r s by (simp add: split_beta) (metis fst_conv)
  show "writes (snd (part0_run (StartStream Accepts # evs) c)) =
        writes c @ map (Pair (created c)) (chunks evs)"
    using a r s by simp
next
  assume a: "\<forall>ev\<in>set evs. accepted_audio ev"
  have s: "server_ts_step (StartStream Accepts) c =
      (None, c\<lparr>requested := Suc (requested c), created := Suc (created c),
                recognizeStream := Some (created c)\<rparr>)"
    by (simp add: server_ts_defs world_defs)
  note r = server_ts_audio_run [of "c\<lparr>requested := Suc (requested c), created := Suc (created c),
                recognizeStream := Some (created c)\<rparr>" "created c" evs]
  show "fst (server_ts_run (StartStream Accepts # evs) c) = None"
    using a r s by (simp add: split_beta) (metis fst_conv)
  show "writes (snd (server_ts_run (StartStream Accepts # evs) c)) =
        writes c @ map (Pair (created c)) (chunks evs)"
    using a r s by simp
qed

text \<open>Three chunks after a start on a new connection reach stream 0 in order.\<close>

theorem audio_forwarded_in_order_witness:
  "\<not> unavailable \<lparr>hasValidCredentials = True, speechClient = Some ()\<rparr> \<and>
   streaming (BinaryData [1] Accepts) \<and> is_audio (BinaryData [2] Accepts) \<and>
   accepted_audio (BinaryData [3] Accepts) \<and>
   writes (snd (run \<lparr>hasValidCredentials = True, speechClient = Some ()\<rparr>
     (StartStream Accepts # [BinaryData [1] Accepts, BinaryData [2] Accepts, BinaryData [3] Accepts])
     connection)) = [(0, [1]), (0, [2]), (0, [3])] \<and>
   writes (snd (part0_run
     (StartStream Accepts # [BinaryData [1] Accepts, BinaryData [2] Accepts, BinaryData [3] Accepts])
     connection)) = [(0, [1]), (0, [2]), (0, [3])] \<and>
   writes (snd (server_ts_run
     (StartStream Accepts # [BinaryData [1] Accepts, BinaryData [2] Accepts, BinaryData [3] Accepts])
     connection)) = [(0, [1]), (0, [2]), (0, [3])]"
  using audio_forwarded_in_order
    [of "\<lparr>hasValidCredentials = True, speechClient = Some ()\<rparr>"
        "[BinaryData [1] Accepts, BinaryData [2] Accepts, BinaryData [3] Accepts]" connection]
  by (simp add: unavailable_def connection_def)

lemma idle_audio_step:
  "recognizeStream c = None \<or> isStreamEnded c \<Longrightarrow> is_audio ev \<Longrightarrow>
   step srv ev c = (None, c)"
  by (cases ev) (auto simp: binaryData_def split: option.splits)

lemma idle_audio_run:
  "recognizeStream c = None \<or> isStreamEnded c \<Longrightarrow> \<forall>ev\<in>set evs. is_audio ev \<Longrightarrow>
   run srv evs c = (None, c)"
  by (induction evs) (simp_all add: idle_audio_step)

lemma part0_idle_audio_run:
  "recognizeStream c = None \<Longrightarrow> \<forall>ev\<in>set pre. is_audio ev \<Longrightarrow>
   part0_run (pre @ evs) c = part0_run evs c"
proof (induction pre)
  case Nil
  then show ?case by simp
next
  case (Cons ev pre)
  then have "part0_step ev c = (None, c)"
    by (cases ev) (simp_all add: part0_binaryData_def)
  with Cons show ?case by simp
qed

lemma server_ts_idle_audio_run:
  "recognizeStream c = None \<Longrightarrow> \<forall>ev\<in>set pre. is_audio ev \<Longrightarrow>
   server_ts_run (pre @ evs) c = server_ts_run evs c"
proof (induction pre)
  case Nil
  then show ?case by simp
next
  case (Cons ev pre)
  then have "server_ts_step ev c = (None, c)"
    by (cases ev) (simp_all add: server_ts_binaryData_def)
  with Cons show ?case by simp
qed

text \<open>
  Claim C8. On a new connection, any sequence \<open>pre\<close> of audio events before the first
  \<^verbatim>\<open>onStart\<close> leaves the whole state as it was: nothing is written to a stream,
  nothing is kept, nothing is emitted. Whatever events \<open>evs\<close> follow run exactly as
  if \<open>pre\<close> had never arrived. This holds in all three revisions.
\<close>

theorem audio_before_start_dropped:
  assumes "\<forall>ev\<in>set pre. is_audio ev"
  shows "run srv pre connection = (None, connection) \<and>
    run srv (pre @ evs) connection = run srv evs connection \<and>
    part0_run pre connection = (None, connection) \<and>
    part0_run (pre @ evs) connection = part0_run evs connection \<and>
    server_ts_run pre connection = (None, connection) \<and>
    server_ts_run (pre @ evs) connection = server_ts_run evs connection"
proof -
  have n: "recognizeStream connection = None"
    by (simp add: connection_def)
  have a: "run srv pre connection = (None, connection)"
    using n assms by (simp add: idle_audio_run)
  have b: "run srv (pre @ evs) connection = run srv evs connection"
    using a by (simp add: run_append)
  have c: "part0_run (pre @ evs) connection = part0_run evs connection" for evs
    using n assms by (rule part0_idle_audio_run)
  have d: "server_ts_run (pre @ evs) connection = server_ts_run evs connection" for evs
    using n assms by (rule server_ts_idle_audio_run)
  from a b c [of evs] c [of "[]"] d [of evs] d [of "[]"] show ?thesis by simp
qed

text \<open>Two chunks before a start are lost; the chunk after the start is the only one
  written.\<close>

theorem audio_before_start_dropped_witness:
  "is_audio (BinaryData [1, 2] Accepts) \<and> is_audio (BinaryData [3] Throws) \<and>
   writes (snd (run \<lparr>hasValidCredentials = True, speechClient = Some ()\<rparr>
      [BinaryData [1, 2] Accepts, BinaryData [3] Throws] connection)) = [] \<and>
   writes (snd (run \<lparr>hasValidCredentials = True, speechClient = Some ()\<rparr>
      ([BinaryData [1, 2] Accepts, BinaryData [3] Throws] @
       [StartStream Accepts, BinaryData [4] Accepts]) connection)) = [(0, [4])] \<and>
   writes (snd (server_ts_run
      ([BinaryData [1, 2] Accepts, BinaryData [3] Throws] @
       [StartStream Accepts, BinaryData [4] Accepts]) connection)) = [(0, [4])]"
  using audio_before_start_dropped
    [of "[BinaryData [1, 2] Accepts, BinaryData [3] Throws]"
        "\<lparr>hasValidCredentials = True, speechClient = Some ()\<rparr>"
        "[StartStream Accepts, BinaryData [4] Accepts]"]
  by (simp add: handler_defs server_ts_defs world_defs connection_def unavailable_def)

text \<open>The revision with the flag has an \<^verbatim>\<open>end\<close> listener (part_000, lines
  250-253): once a stream has ended by itself, audio is dropped, with no write and no
  event to the client.\<close>

lemma upstream_end_drops_audio:
  assumes "h < created c" and "\<forall>ev\<in>set evs. is_audio ev"
  shows "run srv (UpstreamEnd h # evs) c =
     (None, c\<lparr>finished := finished c @ [h], isStreamEnded := True, recognizeStream := None\<rparr>)"
  using assms by (simp add: on_end_def idle_audio_run)

text \<open>
  Claim C7 says that after an unprompted \<^verbatim>\<open>end\<close> event every later audio chunk is
  dropped with no write attempted. src/server.ts registers no \<^verbatim>\<open>end\<close> listener
  and never clears the reference: after start, the end of stream 0 and one chunk, the
  reference is still stream 0 and the chunk is written to the finished stream.
\<close>

theorem server_ts_writes_after_upstream_end:
  "writes (snd (server_ts_run [StartStream Accepts, UpstreamEnd 0, BinaryData [1] Accepts]
      connection)) = [(0, [1])] \<and>
   finished (snd (server_ts_run [StartStream Accepts, UpstreamEnd 0, BinaryData [1] Accepts]
      connection)) = [0] \<and>
   recognizeStream (snd (server_ts_run [StartStream Accepts, UpstreamEnd 0] connection)) = Some 0"
  by (simp add: server_ts_defs world_defs connection_def)

section \<open>Stopping\<close>

text \<open>In the revision with the flag a stop is idempotent: after one
  \<^verbatim>\<open>endStream\<close>, whether its \<^verbatim>\<open>end()\<close> returned or threw, the reference is
  cleared or the flag is set, so a second \<^verbatim>\<open>endStream\<close> changes nothing and a
  \<^verbatim>\<open>disconnect\<close> only writes its log line.\<close>

lemma endStream_idle:
  "recognizeStream c = None \<or> isStreamEnded c \<Longrightarrow> endStream r c = (None, c)"
  by (auto simp: endStream_def split: option.splits)

lemma endStream_ended:
  "recognizeStream (snd (endStream r c)) = None \<or> isStreamEnded (snd (endStream r c))"
  by (auto simp: endStream_def world_defs split: option.splits reply.splits)

lemma endStream_twice: "endStream r' (snd (endStream r c)) = (None, snd (endStream r c))"
  by (rule endStream_idle) (rule endStream_ended)

lemma disconnect_after_endStream:
  "disconnect r' (snd (endStream r c)) =
     (None, console_log ''Client disconnected'' (snd (endStream r c)))"
  using endStream_ended [of r c]
  by (auto simp: disconnect_def console_log_def Let_def split: option.splits)

text \<open>
  Claim C4 says that a second \<^verbatim>\<open>onStop\<close>, or an \<^verbatim>\<open>onDisconnect\<close> after an
  \<^verbatim>\<open>onStop\<close>, sends no further close request. In src/server.ts and in part_000
  lines 89-108 the handlers test only the reference, which is never cleared: the
  second event calls \<^verbatim>\<open>end()\<close> on stream 0 again.
\<close>

theorem server_ts_stop_twice_closes_twice:
  "ends (snd (server_ts_run [StartStream Accepts, EndStream Accepts, EndStream Accepts]
      connection)) = [0, 0] \<and>
   ends (snd (server_ts_run [StartStream Accepts, EndStream Accepts, Disconnect Accepts]
      connection)) = [0, 0] \<and>
   ends (snd (part0_run [StartStream Accepts, EndStream Accepts, EndStream Accepts]
      connection)) = [0, 0]"
  by (simp add: server_ts_defs part0_defs world_defs connection_def)

text \<open>
  In every state, \<^verbatim>\<open>onStop\<close> and \<^verbatim>\<open>onDisconnect\<close> emit nothing to the
  client, whether the close request returns or throws; this holds in all three
  revisions. In the two revisions of part_000 the handlers also return normally, and
  in the revision with the flag a close request that throws leaves exactly one line on
  the console.
\<close>

theorem stop_and_disconnect_emit_nothing:
  "fst (endStream r c) = None \<and> emitted (snd (endStream r c)) = emitted c \<and>
   fst (disconnect r c) = None \<and> emitted (snd (disconnect r c)) = emitted c \<and>
   (recognizeStream c = Some h \<and> \<not> isStreamEnded c \<longrightarrow>
      console (snd (endStream Throws c)) = console c @ [''Error ending stream:''] \<and>
      console (snd (disconnect Throws c)) =
        console c @ [''Client disconnected'', ''Error ending stream on disconnect:'']) \<and>
   fst (part0_endStream r c) = None \<and> emitted (snd (part0_endStream r c)) = emitted c \<and>
   fst (part0_disconnect r c) = None \<and> emitted (snd (part0_disconnect r c)) = emitted c \<and>
   emitted (snd (server_ts_endStream r c)) = emitted c \<and>
   emitted (snd (server_ts_disconnect r c)) = emitted c"
  by (cases r; cases "recognizeStream c")
     (simp_all add: handler_defs part0_defs server_ts_defs world_defs)

text \<open>A stop whose close request throws, right after a start: the flag is set, the
  request is recorded, the failure is logged, nothing is emitted.\<close>

theorem stop_and_disconnect_emit_nothing_witness:
  "recognizeStream (snd (startStream \<lparr>hasValidCredentials = True, speechClient = Some ()\<rparr>
      Accepts connection)) = Some 0 \<and>
   \<not> isStreamEnded (snd (startStream \<lparr>hasValidCredentials = True, speechClient = Some ()\<rparr>
      Accepts connection)) \<and>
   endStream Throws (snd (startStream \<lparr>hasValidCredentials = True, speechClient = Some ()\<rparr>
      Accepts connection)) =
     (None, \<lparr>recognizeStream = Some 0, isStreamEnded = True, emitted = [],
        console = [''Client connected'', ''Error ending stream:''], requested = 1, created = 1,
        writes = [], ends = [0], closed = [], finished = []\<rparr>)"
  using stop_and_disconnect_emit_nothing
    [of Throws "snd (startStream \<lparr>hasValidCredentials = True, speechClient = Some ()\<rparr>
       Accepts connection)" 0]
  by (simp add: handler_defs world_defs connection_def unavailable_def)

text \<open>
  Claim C10 says that \<^verbatim>\<open>onStop\<close> and \<^verbatim>\<open>onDisconnect\<close> emit nothing even when
  the close request throws, and that such a failure is logged only. In src/server.ts
  (lines 54-65) the call to \<^verbatim>\<open>end()\<close> is not inside a \<^verbatim>\<open>try\<close>: when it throws,
  nothing is emitted, but nothing is logged either, and the exception escapes the
  handler.
\<close>

theorem server_ts_close_failure_escapes:
  "fst (server_ts_run [StartStream Accepts, EndStream Throws] connection) =
     Some GatewayError \<and>
   console (snd (server_ts_run [StartStream Accepts, EndStream Throws] connection)) =
     [''Client connected''] \<and>
   emitted (snd (server_ts_run [StartStream Accepts, EndStream Throws] connection)) = [] \<and>
   fst (server_ts_run [StartStream Accepts, Disconnect Throws] connection) =
     Some GatewayError \<and>
   console (snd (server_ts_run [StartStream Accepts, Disconnect Throws] connection)) =
     [''Client connected'', ''Client disconnected''] \<and>
   emitted (snd (server_ts_run [StartStream Accepts, Disconnect Throws] connection)) = []"
  by (simp add: server_ts_defs world_defs connection_def)

section \<open>The recogniser's events\<close>

text \<open>The \<^verbatim>\<open>error\<close> listener of the revision with the flag (part_000, lines
  238-243): silent on "write after end", and for any other message one console line
  and one error event carrying the message.\<close>

lemma on_error_filter:
  "on_error err c =
     (None, if message err = ''write after end'' then c
            else c\<lparr>console := console c @ [''Speech recognition error:''],
                   emitted := emitted c @
                     [ErrorEvent (''Speech recognition error: '' @ message err)]\<rparr>)"
  by (simp add: on_error_def world_defs)

text \<open>
  Claim C5 says that the error "write after end" never reaches the client and every
  other error does. The listener of part_000 lines 62-65 has no filter: it emits its
  fixed error text for "write after end" too. The listener of src/server.ts line 39
  is \<^verbatim>\<open>console.error\<close>: it emits nothing for any message.
\<close>

theorem part0_reports_write_after_end:
  "emitted (snd (part0_run
      [StartStream Accepts, UpstreamError 0 \<lparr>message = ''write after end''\<rparr>] connection)) =
     [ErrorEvent ''Speech recognition error occurred''] \<and>
   emitted (snd (server_ts_run
      [StartStream Accepts, UpstreamError 0 \<lparr>message = ''Deadline exceeded''\<rparr>] connection)) = []"
  by (simp add: server_ts_defs part0_defs world_defs connection_def)

text \<open>In the revision with the flag a result without alternatives is skipped, and an
  event of one socket never touches the state of another.\<close>

lemma on_data_no_alternative:
  "on_data \<lparr>results = \<lparr>alternatives = []\<rparr> # rest\<rparr> c = (None, c)"
  by (simp add: on_data_def index0_def)

lemma deliver_contained:
  "fst (deliver srv k ev conns) = None \<and>
   (\<forall>j. j \<noteq> k \<longrightarrow> snd (deliver srv k ev conns) j = conns j)"
proof (cases "conns k")
  case None
  then show ?thesis by (simp add: deliver_def)
next
  case (Some c)
  then show ?thesis
    using step_returns [of srv ev c] by (cases "step srv ev c") (simp add: deliver_def)
qed

text \<open>
  Claim C9 says that no failure escapes a handler, and in particular that a
  \<^verbatim>\<open>data\<close> event whose first result has no alternatives does not throw. In
  src/server.ts (line 43) and in part_000 line 69 the listener tests \<^verbatim>\<open>result\<close>
  and then reads \<^verbatim>\<open>result.alternatives[0].transcript\<close>: with an empty list that is a
  property read on \<^verbatim>\<open>undefined\<close>, and the \<^verbatim>\<open>TypeError\<close> escapes the listener.
  In src/server.ts a \<^verbatim>\<open>write\<close> that throws escapes \<^verbatim>\<open>binaryData\<close> as well.
\<close>

theorem server_ts_data_listener_throws:
  "fst (server_ts_run
      [StartStream Accepts, UpstreamData 0 \<lparr>results = [\<lparr>alternatives = []\<rparr>]\<rparr>] connection) =
     Some TypeError \<and>
   fst (part0_run
      [StartStream Accepts, UpstreamData 0 \<lparr>results = [\<lparr>alternatives = []\<rparr>]\<rparr>] connection) =
     Some TypeError \<and>
   fst (server_ts_run [StartStream Accepts, BinaryData [1] Throws] connection) =
     Some GatewayError"
  by (simp add: server_ts_defs part0_defs world_defs connection_def)

end
